theory Spec2Isabelle
  imports Complex_Main "HOL-Library.Sublist"
begin

section \<open>Stock trading notifier: a model of notify.py\<close>

subsection \<open>Exceptions and strings\<close>

text \<open>
  Every exception the script can raise is a value; a function that may raise returns
  \<open>error + 'a\<close>, with \<open>Inl\<close> for the exception.
\<close>

datatype error =
    ValueError
  | KeyError
  | AttributeError
  | ZeroDivisionError
  | OverflowError
  | HTTPError
  | JSONDecodeError
  | UnknownTimeZoneError
  | TwilioRestException

text \<open>
  A Python \<open>str\<close> is a sequence of Unicode code points; the message contains two
  code points outside ASCII, so every text is a list of code points. The ASCII
  constants of the script are written \<open>lit ''...''\<close>.
\<close>

type_synonym pystr = "nat list"

definition lit :: "string \<Rightarrow> pystr" where
  "lit s = map of_char s"

definition LF :: nat where
  "LF = 10"

definition LT :: nat where
  "LT = 60"

definition GT :: nat where
  "GT = 62"

subsection \<open>Dates\<close>

text \<open>
  A \<open>datetime\<close> is held by the proleptic Gregorian ordinal of its date
  (\<open>toordinal()\<close>: 1 is 0001-01-01, a Monday) and its wall-clock time of day.
  Subtracting a whole number of days from an aware \<open>datetime\<close> moves the ordinal and
  keeps the rest; a result outside \<open>datetime.min .. datetime.max\<close> raises
  \<open>OverflowError\<close>.
\<close>

record datetime =
  ordinal :: int
  time_of_day :: nat

definition MINORDINAL :: int where
  "MINORDINAL = 1"

definition MAXORDINAL :: int where
  "MAXORDINAL = 3652059"

definition weekday :: "datetime \<Rightarrow> int" where
  "weekday t = (ordinal t + 6) mod 7"

definition minus_days :: "datetime \<Rightarrow> int \<Rightarrow> error + datetime" where
  "minus_days t n =
     (let d = ordinal t - n
      in if d < MINORDINAL \<or> MAXORDINAL < d then Inl OverflowError
         else Inr (t\<lparr>ordinal := d\<rparr>))"

text \<open>
  \<open>__get_date_days_shift\<close>. A Python function that reaches its end returns
  \<open>None\<close>: that is the last branch, and the result is optional for it.
\<close>

definition returning :: "error + 'a \<Rightarrow> error + 'a option" where
  "returning r = (case r of Inl e \<Rightarrow> Inl e | Inr v \<Rightarrow> Inr (Some v))"

definition get_date_days_shift :: "datetime \<Rightarrow> int \<Rightarrow> error + datetime option" where
  "get_date_days_shift stock_time days =
     (if days < 1 \<or> days > 2 then Inl ValueError
      else if (2 \<le> weekday stock_time \<and> weekday stock_time \<le> 5)
              \<or> (weekday stock_time = 1 \<and> days = 1)
        then returning (minus_days stock_time days)
      else if weekday stock_time = 0 \<or> weekday stock_time = 1
        then returning (minus_days stock_time (days + 2))
      else if weekday stock_time = 6
        then returning (minus_days stock_time (days + 1))
      else Inr None)"

text \<open>
  \<open>strftime("%Y-%m-%d")\<close>: the calendar date of an ordinal, as the standard library
  computes it (\<open>_ord2ymd\<close>), printed with zero-padded decimal fields.
\<close>

definition DAYS_IN_MONTH :: "int list" where
  "DAYS_IN_MONTH = [-1, 31, 28, 31, 30, 31, 30, 31, 31, 30, 31, 30, 31]"

definition DAYS_BEFORE_MONTH :: "int list" where
  "DAYS_BEFORE_MONTH = [-1, 0, 31, 59, 90, 120, 151, 181, 212, 243, 273, 304, 334]"

definition ord2ymd :: "int \<Rightarrow> int \<times> int \<times> int" where
  "ord2ymd n0 =
     (let n = n0 - 1;
          n400 = n div 146097; n = n mod 146097;
          n100 = n div 36524; n = n mod 36524;
          n4 = n div 1461; n = n mod 1461;
          n1 = n div 365; n = n mod 365;
          year = n400 * 400 + 1 + n100 * 100 + n4 * 4 + n1
      in if n1 = 4 \<or> n100 = 4 then (year - 1, 12, 31)
         else
           let leapyear = (n1 = 3 \<and> (n4 \<noteq> 24 \<or> n100 = 3));
               month = (n + 50) div 32;
               preceding = DAYS_BEFORE_MONTH ! nat month
                           + (if month > 2 \<and> leapyear then 1 else 0)
           in if preceding > n
              then
                let month' = month - 1;
                    preceding' = preceding - (DAYS_IN_MONTH ! nat month'
                                 + (if month' = 2 \<and> leapyear then 1 else 0))
                in (year, month', n - preceding' + 1)
              else (year, month, n - preceding + 1))"

definition digit :: "int \<Rightarrow> nat" where
  "digit d = 48 + nat (d mod 10)"

definition pad2 :: "int \<Rightarrow> pystr" where
  "pad2 n = [digit (n div 10), digit n]"

definition pad4 :: "int \<Rightarrow> pystr" where
  "pad4 n = [digit (n div 1000), digit (n div 100), digit (n div 10), digit n]"

definition strftime_ymd :: "datetime \<Rightarrow> pystr" where
  "strftime_ymd t =
     (case ord2ymd (ordinal t) of
        (y, m, d) \<Rightarrow> pad4 y @ lit ''-'' @ pad2 m @ lit ''-'' @ pad2 d)"

subsection \<open>Numbers\<close>

text \<open>
  Prices and percentages are Python floats, that is binary64 values. A finite double is
  modelled by the rational it is, and every operation on floats rounds its exact result
  to the nearest double, ties to the even significand: \<open>double_of\<close>, with 53
  significant bits from the exponent -1022 up and the fixed spacing \<open>2^-1074\<close> below
  (the subnormal numbers). \<open>float\<close> of a decimal string and \<open>round(x, n)\<close> are correctly
  rounded as well: \<open>round\<close> rounds the exact value of \<open>x\<close> to \<open>n\<close> decimals, ties to
  the even digit, and returns the double nearest to that decimal. A division by zero
  raises. Infinities, NaN and the sign of zero have no value here: the model is that of
  the operations whose results stay within \<open>MAX_DOUBLE\<close>.
\<close>

definition round_half_even :: "rat \<Rightarrow> int" where
  "round_half_even y =
     (let f = \<lfloor>y\<rfloor>; r = y - of_int f
      in if r < 1 / 2 then f
         else if 1 / 2 < r then f + 1
         else if even f then f else f + 1)"

function log2_floor :: "int \<Rightarrow> int" where
  "log2_floor n = (if n < 2 then 0 else 1 + log2_floor (n div 2))"
  by pat_completeness auto
termination
  by (relation "measure nat") auto

declare log2_floor.simps [simp del]

definition pow2 :: "int \<Rightarrow> rat" where
  "pow2 k = (if 0 \<le> k then 2 ^ nat k else 1 / 2 ^ nat (- k))"

text \<open>The exponent \<open>e\<close> with \<open>2^e \<le> |x| < 2^(e+1)\<close>, for \<open>x\<close> other than zero.\<close>

definition binade :: "rat \<Rightarrow> int" where
  "binade x =
     (let a = \<bar>x\<bar>
      in if 1 \<le> a then log2_floor \<lfloor>a\<rfloor>
         else - (1 + log2_floor (\<lceil>1 / a\<rceil> - 1)))"

definition double_of :: "rat \<Rightarrow> rat" where
  "double_of x =
     (if x = 0 then 0
      else
        let e = max (binade x) (- 1022);
            ulp = pow2 (e - 52)
        in of_int (round_half_even (x / ulp)) * ulp)"

definition MAX_DOUBLE :: rat where
  "MAX_DOUBLE = (2 ^ 53 - 1) * 2 ^ 971"

definition py_float :: "rat \<Rightarrow> rat" where
  "py_float decimal = double_of decimal"

definition py_sub :: "rat \<Rightarrow> rat \<Rightarrow> rat" where
  "py_sub a b = double_of (a - b)"

definition py_mul :: "rat \<Rightarrow> rat \<Rightarrow> rat" where
  "py_mul a b = double_of (a * b)"

definition py_div :: "rat \<Rightarrow> rat \<Rightarrow> error + rat" where
  "py_div a b = (if b = 0 then Inl ZeroDivisionError else Inr (double_of (a / b)))"

definition py_round :: "rat \<Rightarrow> nat \<Rightarrow> rat" where
  "py_round x ndigits =
     double_of (of_int (round_half_even (x * 10 ^ ndigits)) / 10 ^ ndigits)"

subsection \<open>The outside world\<close>

text \<open>
  An HTTP response has a status code and, when its body parses, a JSON document.
  \<open>raise_for_status\<close> raises on the codes 400 to 599.
\<close>

record 'a response =
  status_code :: nat
  json :: "'a option"

definition raise_for_status :: "'a response \<Rightarrow> error + unit" where
  "raise_for_status r =
     (if 400 \<le> status_code r \<and> status_code r < 600 then Inl HTTPError else Inr ())"

text \<open>
  The price provider's document: the two top-level entries the script reads, each
  absent or a dictionary. A day's entry maps field names to the numbers that the
  provider's decimal strings write; \<open>float\<close> of such a string is \<open>py_float\<close> of it.
\<close>

record av_json =
  meta_data :: "(pystr \<rightharpoonup> pystr) option"
  time_series_daily :: "(pystr \<rightharpoonup> (pystr \<rightharpoonup> rat)) option"

type_synonym article = "pystr \<rightharpoonup> pystr"

record news_json =
  articles :: "article list option"

record sms_request =
  from_number :: pystr
  to_number :: pystr
  body :: pystr

datatype printed = Printed_data av_json | Printed_status pystr

record world =
  outbox :: "sms_request list"
  stdout :: "printed list"

text \<open>The module \<open>config\<close>: six constants, taken as given.\<close>

record config =
  AV_API_KEY :: pystr
  NEWS_API_KEY :: pystr
  TWILIO_ACCOUNT_SID :: pystr
  TWILIO_AUTH_TOKEN :: pystr
  TWILIO_SENDER_NUMBER :: pystr
  TWILIO_RECEIVER_NUMBER :: pystr

text \<open>
  What the script calls but does not define: the two HTTP providers (from the query
  parameters to a response, or a transport error), the time zone database, the clock
  read in a zone, the SMS provider (from credentials and request to a delivery status),
  and the text Python prints for a float.
\<close>

record 'tz env =
  alphavantage :: "(pystr \<times> pystr) list \<Rightarrow> error + av_json response"
  newsapi :: "(pystr \<times> pystr) list \<Rightarrow> error + news_json response"
  timezone :: "pystr \<Rightarrow> 'tz option"
  now_in :: "'tz \<Rightarrow> datetime"
  twilio_create :: "pystr \<times> pystr \<Rightarrow> sms_request \<Rightarrow> error + pystr"
  float_str :: "rat \<Rightarrow> pystr"

definition STOCKS :: "pystr list" where
  "STOCKS = [lit ''TSLA'', lit ''FB'', lit ''SIEGY'', lit ''AAPL'', lit ''AMZN'']"

definition COMPANIES :: "pystr list" where
  "COMPANIES = [lit ''Tesla Inc'', lit ''Facebook Inc'', lit ''SIEMENS AG'',
                lit ''Apple Inc'', lit ''Amazon.com Inc'']"

subsection \<open>The price-change calculator\<close>

definition get_stock_time :: "'tz env \<Rightarrow> 'tz \<Rightarrow> datetime" where
  "get_stock_time e stock_tz = now_in e stock_tz"

text \<open>
  \<open>float(data["Time Series (Daily)"][t.strftime("%Y-%m-%d")]["4. close"])\<close>, with
  each lookup that can fail; \<open>t\<close> is \<open>None\<close> when the resolver fell through.
\<close>

definition close_on :: "av_json \<Rightarrow> datetime option \<Rightarrow> error + rat" where
  "close_on stock_daily_data t =
     (case time_series_daily stock_daily_data of
        None \<Rightarrow> Inl KeyError
      | Some series \<Rightarrow>
          (case t of
             None \<Rightarrow> Inl AttributeError
           | Some d \<Rightarrow>
               (case series (strftime_ymd d) of
                  None \<Rightarrow> Inl KeyError
                | Some day \<Rightarrow>
                    (case day (lit ''4. close'') of
                       None \<Rightarrow> Inl KeyError
                     | Some c \<Rightarrow> Inr (py_float c)))))"

definition get_stock_difference ::
  "config \<Rightarrow> 'tz env \<Rightarrow> pystr \<Rightarrow> world \<Rightarrow> (error + rat) \<times> world" where
  "get_stock_difference cfg e stock_symbol w =
     (let av_params = [(lit ''function'', lit ''TIME_SERIES_DAILY''),
                       (lit ''symbol'', stock_symbol),
                       (lit ''apikey'', AV_API_KEY cfg)]
      in case alphavantage e av_params of
        Inl err \<Rightarrow> (Inl err, w)
      | Inr response \<Rightarrow>
      (case raise_for_status response of
        Inl err \<Rightarrow> (Inl err, w)
      | Inr _ \<Rightarrow>
      (case json response of
        None \<Rightarrow> (Inl JSONDecodeError, w)
      | Some stock_daily_data \<Rightarrow>
      (case meta_data stock_daily_data of
        None \<Rightarrow> (Inl KeyError, w)
      | Some meta \<Rightarrow>
      (case meta (lit ''5. Time Zone'') of
        None \<Rightarrow> (Inl KeyError, w)
      | Some zone \<Rightarrow>
      (case timezone e zone of
        None \<Rightarrow> (Inl UnknownTimeZoneError, w)
      | Some stock_timezone \<Rightarrow>
      (let w' = w\<lparr>stdout := stdout w @ [Printed_data stock_daily_data]\<rparr>;
           stock_t = get_stock_time e stock_timezone
       in case get_date_days_shift stock_t 1 of
        Inl err \<Rightarrow> (Inl err, w')
      | Inr yesterday_stock_t \<Rightarrow>
      (case get_date_days_shift stock_t 2 of
        Inl err \<Rightarrow> (Inl err, w')
      | Inr two_days_ago_stock_t \<Rightarrow>
      (case close_on stock_daily_data yesterday_stock_t of
        Inl err \<Rightarrow> (Inl err, w')
      | Inr yesterday_close \<Rightarrow>
      (case close_on stock_daily_data two_days_ago_stock_t of
        Inl err \<Rightarrow> (Inl err, w')
      | Inr two_days_ago_close \<Rightarrow>
      (let different = py_round (py_sub yesterday_close two_days_ago_close) 2
       in case py_div (py_mul different 100) yesterday_close of
        Inl err \<Rightarrow> (Inl err, w')
      | Inr q \<Rightarrow> (Inr (py_round q 2), w'))))))))))))"

subsection \<open>The news fetcher\<close>

definition get_news :: "config \<Rightarrow> 'tz env \<Rightarrow> pystr \<Rightarrow> error + article list" where
  "get_news cfg e company_name =
     (let news_params = [(lit ''q'', company_name), (lit ''apiKey'', NEWS_API_KEY cfg)]
      in case newsapi e news_params of
        Inl err \<Rightarrow> Inl err
      | Inr response \<Rightarrow>
      (case raise_for_status response of
        Inl err \<Rightarrow> Inl err
      | Inr _ \<Rightarrow>
      (case json response of
        None \<Rightarrow> Inl JSONDecodeError
      | Some news_data \<Rightarrow>
      (case articles news_data of
        None \<Rightarrow> Inl KeyError
      | Some arts \<Rightarrow> Inr (take 3 arts)))))"

subsection \<open>The message composer\<close>

text \<open>
  The pattern \<open><.*?>\<close>: a \<open><\<close>, then as few characters as possible, none of them
  a line feed, then a \<open>>\<close>. \<open>match_tag\<close> tries the pattern at the head of a text and
  returns what follows the match; \<open>re_sub_tags\<close> is \<open>re.sub\<close> with the empty
  replacement: matches are found left to right and do not overlap.
\<close>

fun lazy_dots_gt :: "pystr \<Rightarrow> pystr option" where
  "lazy_dots_gt [] = None"
| "lazy_dots_gt (c # cs) =
     (if c = GT then Some cs else if c = LF then None else lazy_dots_gt cs)"

fun match_tag :: "pystr \<Rightarrow> pystr option" where
  "match_tag [] = None"
| "match_tag (c # cs) = (if c = LT then lazy_dots_gt cs else None)"

function re_sub_tags :: "pystr \<Rightarrow> pystr" where
  "re_sub_tags [] = []"
| "re_sub_tags (c # cs) =
     (case match_tag (c # cs) of
        Some rest \<Rightarrow> re_sub_tags rest
      | None \<Rightarrow> c # re_sub_tags cs)"
  by pat_completeness auto
termination
proof (relation "measure length")
  show "wf (measure (length :: pystr \<Rightarrow> nat))" by simp
next
  fix c :: nat and cs rest :: pystr
  assume m: "match_tag (c # cs) = Some rest"
  have shorter: "lazy_dots_gt xs = Some ys \<Longrightarrow> length ys < length xs" for xs ys
    by (induction xs) (auto split: if_splits)
  from m have "lazy_dots_gt cs = Some rest" by (simp split: if_splits)
  then have "length rest < length cs" by (rule shorter)
  then show "(rest, c # cs) \<in> measure length" by simp
next
  fix c :: nat and cs :: pystr
  show "(cs, c # cs) \<in> measure length" by simp
qed

definition UP :: nat where
  "UP = 128314"

definition DOWN :: nat where
  "DOWN = 128315"

fun create_sms_loop :: "article list \<Rightarrow> pystr \<Rightarrow> error + pystr" where
  "create_sms_loop [] sms = Inr sms"
| "create_sms_loop (highlight # rest) sms =
     (case highlight (lit ''title'') of
        None \<Rightarrow> Inl KeyError
      | Some title \<Rightarrow>
      (let headline = lit ''Headline: '' @ title @ [LF]
       in case highlight (lit ''description'') of
        None \<Rightarrow> Inl KeyError
      | Some description \<Rightarrow>
      (let brief = re_sub_tags (lit ''Brief: '' @ description @ [LF])
       in case highlight (lit ''url'') of
        None \<Rightarrow> Inl KeyError
      | Some link \<Rightarrow>
      (let url = lit ''Link: '' @ link @ [LF]
       in create_sms_loop rest (sms @ headline @ brief @ url @ [LF])))))"

definition create_sms :: "'tz env \<Rightarrow> rat \<Rightarrow> article list \<Rightarrow> pystr \<Rightarrow> error + pystr" where
  "create_sms e stock_difference stock_highlights company_name =
     (let sms = company_name @ lit '': ''
                @ [if stock_difference > 0 then UP else DOWN]
                @ float_str e stock_difference @ lit ''%'' @ [LF, LF]
      in create_sms_loop stock_highlights sms)"

subsection \<open>The notifier and the main loop\<close>

definition send_message ::
  "config \<Rightarrow> 'tz env \<Rightarrow> pystr \<Rightarrow> world \<Rightarrow> (error + unit) \<times> world" where
  "send_message cfg e message w =
     (if message = [] then (Inr (), w)
      else
        let client = (TWILIO_ACCOUNT_SID cfg, TWILIO_AUTH_TOKEN cfg);
            request = \<lparr>from_number = TWILIO_SENDER_NUMBER cfg,
                       to_number = TWILIO_RECEIVER_NUMBER cfg,
                       body = message\<rparr>;
            w' = w\<lparr>outbox := outbox w @ [request]\<rparr>
        in case twilio_create e client request of
             Inl err \<Rightarrow> (Inl err, w')
           | Inr status \<Rightarrow> (Inr (), w'\<lparr>stdout := stdout w' @ [Printed_status status]\<rparr>))"

fun main_loop ::
  "config \<Rightarrow> 'tz env \<Rightarrow> (pystr \<times> pystr) list \<Rightarrow> world \<Rightarrow> (error + unit) \<times> world" where
  "main_loop cfg e [] w = (Inr (), w)"
| "main_loop cfg e ((stock_symbol, company_name) # rest) w =
     (case get_stock_difference cfg e stock_symbol w of
        (Inl err, w1) \<Rightarrow> (Inl err, w1)
      | (Inr stock_difference, w1) \<Rightarrow>
      (case get_news cfg e company_name of
        Inl err \<Rightarrow> (Inl err, w1)
      | Inr stock_highlights \<Rightarrow>
      (case create_sms e stock_difference stock_highlights company_name of
        Inl err \<Rightarrow> (Inl err, w1)
      | Inr sms \<Rightarrow>
      (case send_message cfg e sms w1 of
        (Inl err, w2) \<Rightarrow> (Inl err, w2)
      | (Inr _, w2) \<Rightarrow> main_loop cfg e rest w2))))"

definition main :: "config \<Rightarrow> 'tz env \<Rightarrow> world \<Rightarrow> (error + unit) \<times> world" where
  "main cfg e w = main_loop cfg e (zip STOCKS COMPANIES) w"

subsection \<open>What the message is meant to be\<close>

text \<open>
  The specification's data model: an article carries a title, a description and a url.
  \<open>article_block\<close> is the block the specification gives for one article: the headline,
  the brief with the markup removed from the description, the link, and a blank line.
  \<open>closes_on_line\<close> holds of a text in which a \<open>>\<close> comes before the first line feed,
  and \<open>has_tag_on_line\<close> of a text with a \<open><\<close> that is followed by a \<open>>\<close> on the same
  line.
\<close>

definition has_fields :: "article \<Rightarrow> bool" where
  "has_fields h =
     (h (lit ''title'') \<noteq> None \<and> h (lit ''description'') \<noteq> None \<and> h (lit ''url'') \<noteq> None)"

definition article_block :: "article \<Rightarrow> pystr" where
  "article_block h =
     lit ''Headline: '' @ the (h (lit ''title'')) @ [LF]
     @ lit ''Brief: '' @ re_sub_tags (the (h (lit ''description''))) @ [LF]
     @ lit ''Link: '' @ the (h (lit ''url'')) @ [LF]
     @ [LF]"

fun closes_on_line :: "pystr \<Rightarrow> bool" where
  "closes_on_line [] = False"
| "closes_on_line (c # cs) = (c = GT \<or> (c \<noteq> LF \<and> closes_on_line cs))"

fun has_tag_on_line :: "pystr \<Rightarrow> bool" where
  "has_tag_on_line [] = False"
| "has_tag_on_line (c # cs) = ((c = LT \<and> closes_on_line cs) \<or> has_tag_on_line cs)"

subsection \<open>A concrete run\<close>

text \<open>
  Inputs for worked examples: a configuration, a clock that reads Monday 2024-01-08,
  10:00, a price document with the closes of Friday 2024-01-05 and Thursday 2024-01-04,
  providers that answer 200 with the given documents, and an SMS provider that queues
  every request. \<open>float_repr_2dp\<close> is the text Python prints for a float that
  stands for a number with two decimals, such as \<open>2.0\<close>, \<open>2.07\<close> or \<open>-1.5\<close>.
\<close>

fun nat_str :: "nat \<Rightarrow> pystr" where
  "nat_str n = (if n < 10 then [48 + n] else nat_str (n div 10) @ [48 + n mod 10])"

declare nat_str.simps [simp del]

definition float_repr_2dp :: "rat \<Rightarrow> pystr" where
  "float_repr_2dp x =
     (let a = nat \<bar>round_half_even (x * 100)\<bar>;
          whole = a div 100; tenths = a mod 100 div 10; hundredths = a mod 10
      in (if x < 0 then lit ''-'' else [])
         @ nat_str whole @ lit ''.''
         @ (if hundredths = 0 then [48 + tenths] else [48 + tenths, 48 + hundredths]))"

definition ex_cfg :: config where
  "ex_cfg = \<lparr>AV_API_KEY = lit ''av-key'', NEWS_API_KEY = lit ''news-key'',
             TWILIO_ACCOUNT_SID = lit ''sid'', TWILIO_AUTH_TOKEN = lit ''token'',
             TWILIO_SENDER_NUMBER = lit ''+15550100'',
             TWILIO_RECEIVER_NUMBER = lit ''+15550199''\<rparr>"

definition ex_now :: datetime where
  "ex_now = \<lparr>ordinal = 738893, time_of_day = 36000\<rparr>"

definition ex_prices :: "rat \<Rightarrow> rat \<Rightarrow> av_json" where
  "ex_prices friday thursday =
     \<lparr>meta_data = Some [lit ''5. Time Zone'' \<mapsto> lit ''US/Eastern''],
      time_series_daily =
        Some [lit ''2024-01-05'' \<mapsto> [lit ''4. close'' \<mapsto> friday],
              lit ''2024-01-04'' \<mapsto> [lit ''4. close'' \<mapsto> thursday]]\<rparr>"

definition ex_article :: "pystr \<Rightarrow> pystr \<Rightarrow> pystr \<Rightarrow> article" where
  "ex_article t d u = [lit ''title'' \<mapsto> t, lit ''description'' \<mapsto> d, lit ''url'' \<mapsto> u]"

definition ex_env :: "av_json \<Rightarrow> article list \<Rightarrow> pystr env" where
  "ex_env prices news =
     \<lparr>alphavantage = (\<lambda>params. Inr \<lparr>status_code = 200, json = Some prices\<rparr>),
      newsapi = (\<lambda>params. Inr \<lparr>status_code = 200, json = Some \<lparr>articles = Some news\<rparr>\<rparr>),
      timezone = Some,
      now_in = (\<lambda>zone. ex_now),
      twilio_create = (\<lambda>client request. Inr (lit ''queued'')),
      float_str = float_repr_2dp\<rparr>"

definition ex_world :: world where
  "ex_world = \<lparr>outbox = [], stdout = []\<rparr>"

section \<open>Properties\<close>

lemma weekday_range: "0 \<le> weekday t \<and> weekday t \<le> 6"
  by (simp add: weekday_def)

subsection \<open>The market-day resolver\<close>

lemma weekday_cases:
  "weekday t = 0 \<or> weekday t = 1 \<or> weekday t = 2 \<or> weekday t = 3
   \<or> weekday t = 4 \<or> weekday t = 5 \<or> weekday t = 6"
  using weekday_range [of t] by arith

lemma weekday_minus: "weekday (t\<lparr>ordinal := ordinal t - k\<rparr>) = (weekday t - k) mod 7"
  by (simp add: weekday_def mod_diff_left_eq algebra_simps)

lemma minus_days_in_range:
  assumes "1 \<le> n" and "n \<le> 4" and "5 \<le> ordinal t" and "ordinal t \<le> MAXORDINAL"
  shows "minus_days t n = Inr (t\<lparr>ordinal := ordinal t - n\<rparr>)"
  using assms by (simp add: minus_days_def MINORDINAL_def Let_def)

text \<open>
  Claim C2. For a shift of 1 or 2 and a current timestamp from which four days can be
  subtracted (a date from 0001-01-05 on, up to \<open>datetime.max\<close>), the resolver returns
  the timestamp moved back by \<open>shift\<close> days when the weekday is 2, 3, 4 or 5, or is 1
  with shift 1; by \<open>shift + 2\<close> days when the weekday is 0, or is 1 with shift 2; and by
  \<open>shift + 1\<close> days when the weekday is 6. The time of day is kept.
\<close>

theorem get_date_days_shift_rule:
  assumes "days = 1 \<or> days = 2" and "5 \<le> ordinal st" and "ordinal st \<le> MAXORDINAL"
  shows "((2 \<le> weekday st \<and> weekday st \<le> 5) \<or> (weekday st = 1 \<and> days = 1)
            \<longrightarrow> get_date_days_shift st days
                  = Inr (Some (st\<lparr>ordinal := ordinal st - days\<rparr>)))
       \<and> (weekday st = 0 \<or> (weekday st = 1 \<and> days = 2)
            \<longrightarrow> get_date_days_shift st days
                  = Inr (Some (st\<lparr>ordinal := ordinal st - (days + 2)\<rparr>)))
       \<and> (weekday st = 6
            \<longrightarrow> get_date_days_shift st days
                  = Inr (Some (st\<lparr>ordinal := ordinal st - (days + 1)\<rparr>)))"
proof -
  have m: "minus_days st n = Inr (st\<lparr>ordinal := ordinal st - n\<rparr>)"
    if "1 \<le> n" and "n \<le> 4" for n
    using that assms(2,3) by (rule minus_days_in_range)
  show ?thesis
    using assms(1) by (auto simp: get_date_days_shift_def returning_def m)
qed

text \<open>
  On Monday 2024-01-08 (ordinal 738893) at 10:00 the second market day back is
  Thursday 2024-01-04.
\<close>

theorem get_date_days_shift_rule_monday:
  "weekday \<lparr>ordinal = 738893, time_of_day = 36000\<rparr> = 0
   \<and> get_date_days_shift \<lparr>ordinal = 738893, time_of_day = 36000\<rparr> 2
       = Inr (Some \<lparr>ordinal = 738889, time_of_day = 36000\<rparr>)"
  using get_date_days_shift_rule [of 2 "\<lparr>ordinal = 738893, time_of_day = 36000\<rparr>"]
  by (simp add: weekday_def MAXORDINAL_def)

text \<open>
  Claim C3. For a shift of 1 or 2 and any such current timestamp, whatever its weekday,
  the resolver returns a date, and that date is a Monday, Tuesday, Wednesday, Thursday
  or Friday (weekday 0 to 4).
\<close>

theorem get_date_days_shift_market_day:
  assumes "days = 1 \<or> days = 2" and "5 \<le> ordinal st" and "ordinal st \<le> MAXORDINAL"
  shows "\<exists>r. get_date_days_shift st days = Inr (Some r) \<and> 0 \<le> weekday r \<and> weekday r \<le> 4"
proof -
  have m: "minus_days st n = Inr (st\<lparr>ordinal := ordinal st - n\<rparr>)"
    if "1 \<le> n" and "n \<le> 4" for n
    using that assms(2,3) by (rule minus_days_in_range)
  show ?thesis
    using weekday_cases [of st] assms(1)
    by (auto simp: get_date_days_shift_def returning_def m weekday_minus)
qed

text \<open>On Sunday 2024-01-07 the first market day back is a Friday.\<close>

theorem get_date_days_shift_market_day_sunday:
  "weekday \<lparr>ordinal = 738892, time_of_day = 0\<rparr> = 6
   \<and> (\<exists>r. get_date_days_shift \<lparr>ordinal = 738892, time_of_day = 0\<rparr> 1 = Inr (Some r)
          \<and> weekday r = 4)"
  using get_date_days_shift_market_day [of 1 "\<lparr>ordinal = 738892, time_of_day = 0\<rparr>"]
  by (auto simp: weekday_def MAXORDINAL_def get_date_days_shift_def returning_def
      minus_days_def MINORDINAL_def)

text \<open>
  Claim C4. For a shift below 1 or above 2 the resolver raises \<open>ValueError\<close>, whatever
  the timestamp, and returns no date.
\<close>

theorem get_date_days_shift_invalid:
  "days < 1 \<or> 2 < days \<Longrightarrow> get_date_days_shift st days = Inl ValueError"
  by (auto simp: get_date_days_shift_def)

theorem get_date_days_shift_invalid_three:
  "get_date_days_shift \<lparr>ordinal = 738893, time_of_day = 36000\<rparr> 3 = Inl ValueError"
  using get_date_days_shift_invalid [of 3 "\<lparr>ordinal = 738893, time_of_day = 36000\<rparr>"]
  by simp

subsection \<open>The concrete run, step by step\<close>

lemma ex_friday:
  "strftime_ymd \<lparr>ordinal = 738890, time_of_day = 36000\<rparr> = lit ''2024-01-05''"
  by (simp add: strftime_ymd_def ord2ymd_def lit_def pad2_def pad4_def digit_def
      DAYS_IN_MONTH_def DAYS_BEFORE_MONTH_def Let_def)

lemma ex_thursday:
  "strftime_ymd \<lparr>ordinal = 738889, time_of_day = 36000\<rparr> = lit ''2024-01-04''"
  by (simp add: strftime_ymd_def ord2ymd_def lit_def pad2_def pad4_def digit_def
      DAYS_IN_MONTH_def DAYS_BEFORE_MONTH_def Let_def)

lemma ex_close_friday:
  "close_on (ex_prices a b) (Some \<lparr>ordinal = 738890, time_of_day = 36000\<rparr>)
   = Inr (py_float a)"
  by (simp add: close_on_def ex_prices_def ex_friday lit_def)

lemma ex_close_thursday:
  "close_on (ex_prices a b) (Some \<lparr>ordinal = 738889, time_of_day = 36000\<rparr>)
   = Inr (py_float b)"
  by (simp add: close_on_def ex_prices_def ex_thursday lit_def)

lemma ex_get:
  "alphavantage (ex_env prices news)
     [(lit ''function'', lit ''TIME_SERIES_DAILY''), (lit ''symbol'', symbol),
      (lit ''apikey'', AV_API_KEY ex_cfg)]
   = Inr \<lparr>status_code = 200, json = Some prices\<rparr>"
  by (simp add: ex_env_def)

lemma ex_status: "raise_for_status \<lparr>status_code = 200, json = Some doc\<rparr> = Inr ()"
  by (simp add: raise_for_status_def)

lemma ex_json: "json \<lparr>status_code = 200, json = Some doc\<rparr> = Some doc"
  by simp

lemma ex_meta:
  "meta_data (ex_prices a b) = Some [lit ''5. Time Zone'' \<mapsto> lit ''US/Eastern'']"
  by (simp add: ex_prices_def)

lemma ex_zone:
  "[lit ''5. Time Zone'' \<mapsto> lit ''US/Eastern''] (lit ''5. Time Zone'') = Some (lit ''US/Eastern'')"
  by simp

lemma ex_timezone: "timezone (ex_env prices news) zone = Some zone"
  by (simp add: ex_env_def)

lemma ex_yesterday:
  "get_date_days_shift (now_in (ex_env prices news) zone) 1
   = Inr (Some \<lparr>ordinal = 738890, time_of_day = 36000\<rparr>)"
  by (simp add: ex_env_def get_date_days_shift_def ex_now_def weekday_def returning_def
      minus_days_def MINORDINAL_def MAXORDINAL_def)

lemma ex_two_days_ago:
  "get_date_days_shift (now_in (ex_env prices news) zone) 2
   = Inr (Some \<lparr>ordinal = 738889, time_of_day = 36000\<rparr>)"
  by (simp add: ex_env_def get_date_days_shift_def ex_now_def weekday_def returning_def
      minus_days_def MINORDINAL_def MAXORDINAL_def)

subsection \<open>The price-change calculator\<close>

lemma py_float_zero: "py_float 0 = 0"
  by (simp add: py_float_def double_of_def)

lemma py_float_100: "py_float 100 = 100"
  by code_simp

lemma py_float_1: "py_float 1 = 1"
  by code_simp

text \<open>
  When every lookup succeeds, the value of the calculator is decided by the two closes:
  the rounded difference, times 100, divided by yesterday's close, rounded.
\<close>

lemma get_stock_difference_found:
  assumes "alphavantage e [(lit ''function'', lit ''TIME_SERIES_DAILY''),
                           (lit ''symbol'', stock_symbol),
                           (lit ''apikey'', AV_API_KEY cfg)] = Inr response"
    and "raise_for_status response = Inr ()"
    and "json response = Some stock_daily_data"
    and "meta_data stock_daily_data = Some meta"
    and "meta (lit ''5. Time Zone'') = Some zone"
    and "timezone e zone = Some stock_tz"
    and "get_date_days_shift (now_in e stock_tz) 1 = Inr yesterday"
    and "get_date_days_shift (now_in e stock_tz) 2 = Inr two_days_ago"
    and "close_on stock_daily_data yesterday = Inr yesterday_close"
    and "close_on stock_daily_data two_days_ago = Inr two_days_ago_close"
  shows "fst (get_stock_difference cfg e stock_symbol w)
         = (case py_div (py_mul (py_round (py_sub yesterday_close two_days_ago_close) 2) 100)
                  yesterday_close of
              Inl err \<Rightarrow> Inl err
            | Inr q \<Rightarrow> Inr (py_round q 2))"
  unfolding get_stock_difference_def get_stock_time_def Let_def
  by (simp add: assms split: sum.split)

text \<open>
  Claim C1, as the code has it. For closing prices \<open>closeYesterday\<close> (not zero) and
  \<open>closeTwoDaysAgo\<close> looked up from the daily series under the two resolved dates, of a
  size that keeps every operation within the range of doubles (at most \<open>2^900\<close> in
  absolute value, and \<open>closeYesterday\<close> at least \<open>2^-100\<close>), the calculator returns
  \<open>round(round(closeYesterday - closeTwoDaysAgo, 2) * 100 / closeYesterday, 2)\<close> in
  float arithmetic: the difference is rounded to two decimals first, and the quotient
  is rounded again.
\<close>

theorem get_stock_difference_value:
  assumes "alphavantage e [(lit ''function'', lit ''TIME_SERIES_DAILY''),
                           (lit ''symbol'', stock_symbol),
                           (lit ''apikey'', AV_API_KEY cfg)] = Inr response"
    and "raise_for_status response = Inr ()"
    and "json response = Some stock_daily_data"
    and "meta_data stock_daily_data = Some meta"
    and "meta (lit ''5. Time Zone'') = Some zone"
    and "timezone e zone = Some stock_tz"
    and "get_date_days_shift (now_in e stock_tz) 1 = Inr yesterday"
    and "get_date_days_shift (now_in e stock_tz) 2 = Inr two_days_ago"
    and "close_on stock_daily_data yesterday = Inr closeYesterday"
    and "close_on stock_daily_data two_days_ago = Inr closeTwoDaysAgo"
    and "closeYesterday \<noteq> 0"
    and "1 / 2 ^ 100 \<le> \<bar>closeYesterday\<bar>"
    and "\<bar>closeYesterday\<bar> \<le> 2 ^ 900"
    and "\<bar>closeTwoDaysAgo\<bar> \<le> 2 ^ 900"
  shows "fst (get_stock_difference cfg e stock_symbol w)
         = Inr (py_round
                  (double_of
                     (py_mul (py_round (py_sub closeYesterday closeTwoDaysAgo) 2) 100
                      / closeYesterday)) 2)"
proof -
  have "py_div (py_mul (py_round (py_sub closeYesterday closeTwoDaysAgo) 2) 100)
          closeYesterday
        = Inr (double_of
                 (py_mul (py_round (py_sub closeYesterday closeTwoDaysAgo) 2) 100
                  / closeYesterday))"
    using assms(11) by (simp add: py_div_def)
  with get_stock_difference_found [OF assms(1-10)] show ?thesis
    by simp
qed

text \<open>
  Closes 40.00 on Friday and 39.99 on Thursday, read on the Monday after: the code's
  floats give 0.03, where exact decimal arithmetic would give 0.02 (the float difference
  is a little above 0.01, the rounded difference times 100 is the float 1.0, the
  quotient is the float 0.025, which lies above the decimal 0.025).
\<close>

theorem get_stock_difference_value_monday:
  "fst (get_stock_difference ex_cfg (ex_env (ex_prices 40 (3999 / 100)) []) (lit ''TSLA'')
          ex_world)
   = Inr (py_float (3 / 100))"
proof -
  have r: "py_round
             (double_of
                (py_mul (py_round (py_sub (py_float 40) (py_float (3999 / 100))) 2) 100
                 / py_float 40)) 2 = py_float (3 / 100)"
    by code_simp
  have nz: "py_float 40 \<noteq> 0"
    by code_simp
  have lo: "1 / 2 ^ 100 \<le> \<bar>py_float 40\<bar>"
    by code_simp
  have hi: "\<bar>py_float 40\<bar> \<le> 2 ^ 900"
    by code_simp
  have hi': "\<bar>py_float (3999 / 100)\<bar> \<le> 2 ^ 900"
    by code_simp
  have "fst (get_stock_difference ex_cfg (ex_env (ex_prices 40 (3999 / 100)) []) (lit ''TSLA'')
          ex_world)
        = Inr (py_round
                 (double_of
                    (py_mul (py_round (py_sub (py_float 40) (py_float (3999 / 100))) 2) 100
                     / py_float 40)) 2)"
    by (rule get_stock_difference_value [OF ex_get ex_status ex_json ex_meta ex_zone
          ex_timezone ex_yesterday ex_two_days_ago ex_close_friday ex_close_thursday
          nz lo hi hi'])
  then show ?thesis
    by (simp only: r)
qed

text \<open>
  The same run with the closes 200.00 and 199.99: the code's floats give 0.01, where
  exact decimal arithmetic would give 0.0.
\<close>

lemma get_stock_difference_two_hundred:
  "fst (get_stock_difference ex_cfg (ex_env (ex_prices 200 (19999 / 100)) []) (lit ''TSLA'')
          ex_world)
   = Inr (py_float (1 / 100))"
proof -
  have q: "py_div (py_mul (py_round (py_sub (py_float 200) (py_float (19999 / 100))) 2) 100)
             (py_float 200)
           = Inr (double_of (5 / 1000))"
    by code_simp
  have r: "py_round (double_of (5 / 1000)) 2 = py_float (1 / 100)"
    by code_simp
  have "fst (get_stock_difference ex_cfg (ex_env (ex_prices 200 (19999 / 100)) [])
               (lit ''TSLA'') ex_world)
        = (case py_div (py_mul (py_round (py_sub (py_float 200) (py_float (19999 / 100))) 2)
                          100) (py_float 200) of
             Inl err \<Rightarrow> Inl err
           | Inr q \<Rightarrow> Inr (py_round q 2))"
    by (rule get_stock_difference_found [OF ex_get ex_status ex_json ex_meta ex_zone
          ex_timezone ex_yesterday ex_two_days_ago ex_close_friday ex_close_thursday])
  then show ?thesis
    unfolding q by (simp only: sum.case r)
qed

text \<open>
  The claim as stated, with a single rounding, fails: closes 1 on Friday and 0.99609375
  on Thursday give 0.0, where rounding \<open>(1 - 0.99609375) * 100 / 1\<close> once gives 0.39.
\<close>

theorem get_stock_difference_rounds_twice:
  "close_on (ex_prices 1 (255 / 256)) (Some \<lparr>ordinal = 738890, time_of_day = 36000\<rparr>) = Inr 1
   \<and> close_on (ex_prices 1 (255 / 256)) (Some \<lparr>ordinal = 738889, time_of_day = 36000\<rparr>)
       = Inr (255 / 256)
   \<and> fst (get_stock_difference ex_cfg (ex_env (ex_prices 1 (255 / 256)) []) (lit ''TSLA'')
            ex_world) = Inr 0
   \<and> py_round (double_of (py_mul (py_sub 1 (255 / 256)) 100 / 1)) 2 = py_float (39 / 100)
   \<and> py_float (39 / 100) \<noteq> 0"
proof -
  have thu: "py_float (255 / 256) = 255 / 256"
    by code_simp
  have quotient: "py_div (py_mul (py_round (py_sub (py_float 1) (py_float (255 / 256))) 2) 100)
                    (py_float 1) = Inr 0"
    by code_simp
  have outer: "py_round 0 2 = 0"
    by code_simp
  have single: "py_round (double_of (py_mul (py_sub 1 (255 / 256)) 100 / 1)) 2
                = py_float (39 / 100)"
    by code_simp
  have differs: "py_float (39 / 100) \<noteq> 0"
    by code_simp
  have step: "fst (get_stock_difference ex_cfg (ex_env (ex_prices 1 (255 / 256)) [])
                     (lit ''TSLA'') ex_world)
              = (case py_div (py_mul (py_round (py_sub (py_float 1) (py_float (255 / 256))) 2)
                                100) (py_float 1) of
                   Inl err \<Rightarrow> Inl err
                 | Inr q \<Rightarrow> Inr (py_round q 2))"
    by (rule get_stock_difference_found [OF ex_get ex_status ex_json ex_meta ex_zone
          ex_timezone ex_yesterday ex_two_days_ago ex_close_friday ex_close_thursday])
  have "fst (get_stock_difference ex_cfg (ex_env (ex_prices 1 (255 / 256)) []) (lit ''TSLA'')
          ex_world) = Inr 0"
    unfolding step quotient by (simp only: sum.case outer)
  then show ?thesis
    by (simp only: ex_close_friday ex_close_thursday py_float_1 thu single differs
        simp_thms)
qed

text \<open>
  Claim C10. The division has no zero guard: whenever the date resolved as yesterday
  maps to a close of 0 (and the other lookups succeed), the calculator raises
  \<open>ZeroDivisionError\<close> and returns no percentage.
\<close>

theorem get_stock_difference_zero_close:
  assumes "alphavantage e [(lit ''function'', lit ''TIME_SERIES_DAILY''),
                           (lit ''symbol'', stock_symbol),
                           (lit ''apikey'', AV_API_KEY cfg)] = Inr response"
    and "raise_for_status response = Inr ()"
    and "json response = Some stock_daily_data"
    and "meta_data stock_daily_data = Some meta"
    and "meta (lit ''5. Time Zone'') = Some zone"
    and "timezone e zone = Some stock_tz"
    and "get_date_days_shift (now_in e stock_tz) 1 = Inr yesterday"
    and "get_date_days_shift (now_in e stock_tz) 2 = Inr two_days_ago"
    and "close_on stock_daily_data yesterday = Inr 0"
    and "close_on stock_daily_data two_days_ago = Inr closeTwoDaysAgo"
  shows "fst (get_stock_difference cfg e stock_symbol w) = Inl ZeroDivisionError"
  using get_stock_difference_found [OF assms] by (simp add: py_div_def)

text \<open>A series with a close of 0 on Friday 2024-01-05, read on the Monday after.\<close>

theorem get_stock_difference_zero_close_monday:
  "close_on (ex_prices 0 98) (Some \<lparr>ordinal = 738890, time_of_day = 36000\<rparr>) = Inr 0
   \<and> fst (get_stock_difference ex_cfg (ex_env (ex_prices 0 98) []) (lit ''TSLA'') ex_world)
       = Inl ZeroDivisionError"
proof -
  have zero: "close_on (ex_prices 0 98) (Some \<lparr>ordinal = 738890, time_of_day = 36000\<rparr>)
              = Inr 0"
    using ex_close_friday [of 0 98] by (simp only: py_float_zero)
  have "fst (get_stock_difference ex_cfg (ex_env (ex_prices 0 98) []) (lit ''TSLA'') ex_world)
        = Inl ZeroDivisionError"
    by (rule get_stock_difference_zero_close [OF ex_get ex_status ex_json ex_meta ex_zone
          ex_timezone ex_yesterday ex_two_days_ago zero ex_close_thursday])
  with zero show ?thesis
    by (simp only: simp_thms)
qed

subsection \<open>Removing markup\<close>

lemma lazy_dots_gt_closes: "(lazy_dots_gt cs \<noteq> None) = closes_on_line cs"
  by (induction cs) auto

lemma lazy_dots_gt_suffix: "lazy_dots_gt cs = Some rest \<Longrightarrow> suffix rest cs"
  by (induction cs) (auto simp: suffix_Cons split: if_splits)

lemma lazy_dots_gt_line_feed:
  "lazy_dots_gt (cs @ [LF]) = map_option (\<lambda>rest. rest @ [LF]) (lazy_dots_gt cs)"
  by (induction cs) (auto simp: LF_def GT_def)

lemma re_sub_tags_plain: "LT \<notin> set p \<Longrightarrow> re_sub_tags (p @ s) = p @ re_sub_tags s"
  by (induction p) auto

lemma re_sub_tags_line_feed: "re_sub_tags (s @ [LF]) = re_sub_tags s @ [LF]"
proof (induction s rule: re_sub_tags.induct)
  case 1
  show ?case by (simp add: LF_def LT_def)
next
  case (2 c cs)
  show ?case
  proof (cases "match_tag (c # cs)")
    case None
    then have "match_tag (c # cs @ [LF]) = None"
      by (auto simp: lazy_dots_gt_line_feed split: if_splits)
    with None 2 show ?thesis by simp
  next
    case (Some rest)
    then have "match_tag (c # cs @ [LF]) = Some (rest @ [LF])"
      by (auto simp: lazy_dots_gt_line_feed split: if_splits)
    with Some 2 show ?thesis by simp
  qed
qed

lemma re_sub_tags_brief:
  "re_sub_tags (lit ''Brief: '' @ description @ [LF])
   = lit ''Brief: '' @ re_sub_tags description @ [LF]"
proof -
  have "LT \<notin> set (lit ''Brief: '')"
    by (simp add: lit_def LT_def)
  then have "re_sub_tags (lit ''Brief: '' @ (description @ [LF]))
             = lit ''Brief: '' @ re_sub_tags (description @ [LF])"
    by (rule re_sub_tags_plain)
  then show ?thesis
    by (simp add: re_sub_tags_line_feed)
qed

lemma re_sub_tags_subseq: "subseq (re_sub_tags s) s"
proof (induction s rule: re_sub_tags.induct)
  case 1
  show ?case by simp
next
  case (2 c cs)
  show ?case
  proof (cases "match_tag (c # cs)")
    case None
    with 2 show ?thesis by simp
  next
    case (Some rest)
    then have "lazy_dots_gt cs = Some rest"
      by (simp split: if_splits)
    then have "suffix rest cs"
      by (rule lazy_dots_gt_suffix)
    then have "subseq rest cs"
      by (rule suffix_imp_subseq)
    with 2(2) [OF Some] have "subseq (re_sub_tags rest) cs"
      by (rule subseq_order.trans)
    then have "subseq (re_sub_tags rest) (c # cs)"
      by (rule list_emb_Cons)
    with Some show ?thesis by simp
  qed
qed

lemma closes_on_line_re_sub_tags: "closes_on_line (re_sub_tags s) \<Longrightarrow> closes_on_line s"
proof (induction s rule: re_sub_tags.induct)
  case 1
  then show ?case by simp
next
  case (2 c cs)
  show ?case
  proof (cases "match_tag (c # cs)")
    case None
    with 2 show ?thesis by auto
  next
    case (Some rest)
    then have "c = LT" and "lazy_dots_gt cs = Some rest"
      by (auto split: if_splits)
    then have "closes_on_line cs"
      using lazy_dots_gt_closes [of cs] by simp
    with \<open>c = LT\<close> show ?thesis
      by (simp add: LT_def LF_def)
  qed
qed

lemma re_sub_tags_no_tag: "\<not> has_tag_on_line (re_sub_tags s)"
proof (induction s rule: re_sub_tags.induct)
  case 1
  show ?case by simp
next
  case (2 c cs)
  show ?case
  proof (cases "match_tag (c # cs)")
    case None
    have "\<not> (c = LT \<and> closes_on_line (re_sub_tags cs))"
    proof
      assume a: "c = LT \<and> closes_on_line (re_sub_tags cs)"
      then have "closes_on_line cs"
        by (auto dest: closes_on_line_re_sub_tags)
      then have "lazy_dots_gt cs \<noteq> None"
        using lazy_dots_gt_closes [of cs] by blast
      with a None show False by simp
    qed
    with None 2 show ?thesis by simp
  next
    case (Some rest)
    with 2 show ?thesis by simp
  qed
qed

lemma closes_on_line_append:
  "LF \<notin> set mid \<Longrightarrow> closes_on_line (mid @ GT # post)"
  by (induction mid) auto

lemma has_tag_on_line_append:
  "LF \<notin> set mid \<Longrightarrow> has_tag_on_line (pre @ LT # mid @ GT # post)"
  by (induction pre) (auto simp: closes_on_line_append)

subsection \<open>The message composer\<close>

lemma create_sms_loop_prefix:
  "create_sms_loop hs sms = Inr m \<Longrightarrow> prefix sms m"
proof (induction hs arbitrary: sms)
  case Nil
  then show ?case by simp
next
  case (Cons h hs)
  from Cons.prems obtain sms' where "create_sms_loop hs (sms @ sms') = Inr m"
    by (auto simp: Let_def split: option.splits)
  then have "prefix (sms @ sms') m"
    by (rule Cons.IH)
  then show ?case
    by (rule append_prefixD)
qed

lemma create_sms_loop_blocks:
  "list_all has_fields hs
   \<Longrightarrow> create_sms_loop hs sms = Inr (sms @ concat (map article_block hs))"
proof (induction hs arbitrary: sms)
  case Nil
  show ?case by simp
next
  case (Cons h hs)
  from Cons.prems obtain t d u
    where f: "h (lit ''title'') = Some t" "h (lit ''description'') = Some d"
      "h (lit ''url'') = Some u"
    by (auto simp: has_fields_def)
  from Cons.prems have "list_all has_fields hs" by simp
  note ih = Cons.IH [OF this]
  show ?case
    by (simp add: f ih article_block_def re_sub_tags_brief)
qed

lemma lazy_dots_gt_first:
  "LF \<notin> set mid \<Longrightarrow> GT \<notin> set mid \<Longrightarrow> lazy_dots_gt (mid @ GT # post) = Some post"
  by (induction mid) auto

lemma re_sub_tags_first_tag:
  assumes "LT \<notin> set pre" and "LF \<notin> set mid" and "GT \<notin> set mid"
  shows "re_sub_tags (pre @ LT # mid @ GT # post) = pre @ re_sub_tags post"
proof -
  have "re_sub_tags (LT # mid @ GT # post) = re_sub_tags post"
    using assms(2,3) by (simp add: lazy_dots_gt_first)
  with assms(1) show ?thesis
    by (simp add: re_sub_tags_plain)
qed

lemma re_sub_tags_open:
  assumes "LT \<notin> set pre" and "\<not> closes_on_line post"
  shows "re_sub_tags (pre @ LT # post) = pre @ LT # re_sub_tags post"
proof -
  from assms(2) have "lazy_dots_gt post = None"
    using lazy_dots_gt_closes [of post] by simp
  then have "re_sub_tags (LT # post) = LT # re_sub_tags post"
    by simp
  with assms(1) show ?thesis
    by (simp add: re_sub_tags_plain)
qed

lemma create_sms_blocks:
  "list_all has_fields hs
   \<Longrightarrow> create_sms e d hs c
       = Inr (c @ lit '': '' @ [if 0 < d then UP else DOWN] @ float_str e d @ lit ''%''
              @ [LF, LF] @ concat (map article_block hs))"
  by (simp add: create_sms_def create_sms_loop_blocks)

lemma create_sms_prefix:
  "create_sms e d hs c = Inr sms
   \<Longrightarrow> prefix (c @ lit '': '' @ [if 0 < d then UP else DOWN] @ float_str e d @ lit ''%''
               @ [LF, LF]) sms"
  unfolding create_sms_def Let_def by (rule create_sms_loop_prefix)

lemma first_line:
  assumes "prefix (header @ [LF, LF]) sms" and "LF \<notin> set header"
  shows "takeWhile (\<lambda>c. c \<noteq> LF) sms = header"
proof -
  from assms(1) obtain rest where "sms = header @ LF # LF # rest"
    by (auto simp: prefix_def)
  moreover from assms(2) have "\<forall>c \<in> set header. c \<noteq> LF"
    by auto
  ultimately show ?thesis
    by (simp add: takeWhile_tail)
qed

text \<open>
  Claim C5. For every percentage change, article list and company name for which the
  composer returns a message (it does when every article has its three fields), the
  message starts with the line \<open>{company}: {arrow}{change}%\<close>, closed by a line feed;
  the arrow is the up symbol when the change is above zero and the down symbol
  otherwise, zero included. When neither the company name nor the printed change holds
  a line feed, that header is exactly the first line.
\<close>

theorem create_sms_header:
  "(list_all has_fields stock_highlights
      \<longrightarrow> (\<exists>m. create_sms e stock_difference stock_highlights company_name = Inr m))
   \<and> (create_sms e stock_difference stock_highlights company_name = Inr sms
      \<longrightarrow> prefix (company_name @ lit '': ''
                   @ [if 0 < stock_difference then UP else DOWN]
                   @ float_str e stock_difference @ lit ''%'' @ [LF]) sms
          \<and> (LF \<notin> set company_name \<and> LF \<notin> set (float_str e stock_difference)
             \<longrightarrow> takeWhile (\<lambda>c. c \<noteq> LF) sms
                 = company_name @ lit '': ''
                   @ [if 0 < stock_difference then UP else DOWN]
                   @ float_str e stock_difference @ lit ''%''))
   \<and> UP \<noteq> DOWN"
proof (intro conjI impI)
  assume "list_all has_fields stock_highlights"
  then show "\<exists>m. create_sms e stock_difference stock_highlights company_name = Inr m"
    by (simp add: create_sms_blocks)
next
  let ?header = "company_name @ lit '': '' @ [if 0 < stock_difference then UP else DOWN]
                 @ float_str e stock_difference @ lit ''%''"
  assume r: "create_sms e stock_difference stock_highlights company_name = Inr sms"
  then have p: "prefix (?header @ [LF, LF]) sms"
    using create_sms_prefix [of e stock_difference stock_highlights company_name sms]
    by simp
  have "prefix (?header @ [LF]) (?header @ [LF, LF])"
    by simp
  with p have "prefix (?header @ [LF]) sms"
    by (rule prefix_order.trans [rotated])
  then show "prefix (company_name @ lit '': ''
                   @ [if 0 < stock_difference then UP else DOWN]
                   @ float_str e stock_difference @ lit ''%'' @ [LF]) sms"
    by simp
  assume "LF \<notin> set company_name \<and> LF \<notin> set (float_str e stock_difference)"
  then have "LF \<notin> set ?header"
    by (simp add: lit_def LF_def UP_def DOWN_def)
  with p show "takeWhile (\<lambda>c. c \<noteq> LF) sms = ?header"
    by (rule first_line)
next
  show "UP \<noteq> DOWN"
    by (simp add: UP_def DOWN_def)
qed

lemma ex_has_fields: "has_fields (ex_article t d u)"
  by (simp add: has_fields_def ex_article_def lit_def)

lemma ex_article_block:
  "article_block (ex_article t d u)
   = lit ''Headline: '' @ t @ [LF] @ lit ''Brief: '' @ re_sub_tags d @ [LF]
     @ lit ''Link: '' @ u @ [LF] @ [LF]"
  by (simp add: article_block_def ex_article_def lit_def)

lemma ex_float_str: "float_str (ex_env prices news) = float_repr_2dp"
  by (simp add: ex_env_def)

lemma ex_repr_207: "float_repr_2dp (207 / 100) = lit ''2.07''"
  by code_simp

lemma ex_repr_2: "float_repr_2dp 2 = lit ''2.0''"
  by code_simp

text \<open>A change of 2.07 for Tesla Inc: the first line is the header with the up arrow.\<close>

theorem create_sms_header_tesla:
  "list_all has_fields [ex_article (lit ''T'') (lit ''D'') (lit ''U'')]
   \<and> (\<exists>sms. create_sms (ex_env (ex_prices 100 98) []) (207 / 100)
               [ex_article (lit ''T'') (lit ''D'') (lit ''U'')] (lit ''Tesla Inc'') = Inr sms
            \<and> takeWhile (\<lambda>c. c \<noteq> LF) sms = lit ''Tesla Inc: '' @ [UP] @ lit ''2.07%'')"
proof -
  let ?e = "ex_env (ex_prices 100 98) []"
  let ?hs = "[ex_article (lit ''T'') (lit ''D'') (lit ''U'')]"
  have wf: "list_all has_fields ?hs"
    by (simp add: ex_has_fields)
  have nl: "LF \<notin> set (lit ''Tesla Inc'') \<and> LF \<notin> set (float_str ?e (207 / 100))"
    by (simp add: ex_float_str ex_repr_207 lit_def LF_def)
  have pos: "(0 :: rat) < 207 / 100"
    by simp
  from wf obtain sms
    where r: "create_sms ?e (207 / 100) ?hs (lit ''Tesla Inc'') = Inr sms"
    using create_sms_header [of ?hs ?e "207 / 100" "lit ''Tesla Inc''"] by blast
  with nl have "takeWhile (\<lambda>c. c \<noteq> LF) sms
                = lit ''Tesla Inc'' @ lit '': '' @ [if (0 :: rat) < 207 / 100 then UP else DOWN]
                  @ float_str ?e (207 / 100) @ lit ''%''"
    using create_sms_header [of ?hs ?e "207 / 100" "lit ''Tesla Inc''" sms] by blast
  then have "takeWhile (\<lambda>c. c \<noteq> LF) sms = lit ''Tesla Inc: '' @ [UP] @ lit ''2.07%''"
    by (simp add: ex_float_str ex_repr_207 lit_def)
  with wf r show ?thesis
    by blast
qed

text \<open>
  What the pattern \<open><.*?>\<close> removes. For every article list whose articles have their
  three fields, the message is the header, a blank line, and one block per article, whose
  \<open>Brief:\<close> line holds the description passed through the pattern. What that leaves is
  the description with characters deleted and nothing added; it has no \<open><\<close> that is
  followed by a \<open>>\<close> on the same line; a first \<open><...>\<close> written on one line is removed;
  a \<open><\<close> with no \<open>>\<close> after it on its line stays where it is, so a tag that spans a
  line feed is kept; and a description without \<open><\<close> is kept as it is.
\<close>

lemma create_sms_brief:
  "(list_all has_fields stock_highlights
      \<longrightarrow> create_sms e stock_difference stock_highlights company_name
          = Inr (company_name @ lit '': '' @ [if 0 < stock_difference then UP else DOWN]
                 @ float_str e stock_difference @ lit ''%'' @ [LF, LF]
                 @ concat (map article_block stock_highlights)))
   \<and> (h (lit ''title'') = Some title \<and> h (lit ''description'') = Some description
        \<and> h (lit ''url'') = Some url
      \<longrightarrow> article_block h
          = lit ''Headline: '' @ title @ [LF]
            @ lit ''Brief: '' @ re_sub_tags description @ [LF]
            @ lit ''Link: '' @ url @ [LF] @ [LF])
   \<and> subseq (re_sub_tags description) description
   \<and> \<not> has_tag_on_line (re_sub_tags description)
   \<and> (\<forall>pre mid post. LF \<notin> set mid
        \<longrightarrow> re_sub_tags description \<noteq> pre @ LT # mid @ GT # post)
   \<and> (LT \<notin> set pre \<and> LF \<notin> set mid \<and> GT \<notin> set mid
      \<longrightarrow> re_sub_tags (pre @ LT # mid @ GT # post) = pre @ re_sub_tags post)
   \<and> (LT \<notin> set pre \<and> \<not> closes_on_line post
      \<longrightarrow> re_sub_tags (pre @ LT # post) = pre @ LT # re_sub_tags post)
   \<and> (LT \<notin> set description \<longrightarrow> re_sub_tags description = description)"
proof (intro conjI impI allI)
  assume "list_all has_fields stock_highlights"
  then show "create_sms e stock_difference stock_highlights company_name
          = Inr (company_name @ lit '': '' @ [if 0 < stock_difference then UP else DOWN]
                 @ float_str e stock_difference @ lit ''%'' @ [LF, LF]
                 @ concat (map article_block stock_highlights))"
    by (rule create_sms_blocks)
next
  assume "h (lit ''title'') = Some title \<and> h (lit ''description'') = Some description
        \<and> h (lit ''url'') = Some url"
  then show "article_block h
          = lit ''Headline: '' @ title @ [LF]
            @ lit ''Brief: '' @ re_sub_tags description @ [LF]
            @ lit ''Link: '' @ url @ [LF] @ [LF]"
    by (simp add: article_block_def)
next
  show "subseq (re_sub_tags description) description"
    by (rule re_sub_tags_subseq)
next
  show "\<not> has_tag_on_line (re_sub_tags description)"
    by (rule re_sub_tags_no_tag)
next
  fix pre mid post :: pystr
  assume "LF \<notin> set mid"
  then have "has_tag_on_line (pre @ LT # mid @ GT # post)"
    by (rule has_tag_on_line_append)
  then show "re_sub_tags description \<noteq> pre @ LT # mid @ GT # post"
    using re_sub_tags_no_tag [of description] by auto
next
  assume "LT \<notin> set pre \<and> LF \<notin> set mid \<and> GT \<notin> set mid"
  then show "re_sub_tags (pre @ LT # mid @ GT # post) = pre @ re_sub_tags post"
    by (simp add: re_sub_tags_first_tag)
next
  assume "LT \<notin> set pre \<and> \<not> closes_on_line post"
  then show "re_sub_tags (pre @ LT # post) = pre @ LT # re_sub_tags post"
    by (simp add: re_sub_tags_open)
next
  assume "LT \<notin> set description"
  then show "re_sub_tags description = description"
    using re_sub_tags_plain [of description "[]"] by simp
qed

text \<open>
  A description \<open>We <b>at</b> IM\<close>: both tags go, the text stays.
\<close>

lemma create_sms_brief_bold:
  "list_all has_fields [ex_article (lit ''T'') (lit ''We <b>at</b> IM'') (lit ''U'')]
   \<and> create_sms (ex_env (ex_prices 100 98) []) 2
        [ex_article (lit ''T'') (lit ''We <b>at</b> IM'') (lit ''U'')] (lit ''Tesla Inc'')
      = Inr (lit ''Tesla Inc: '' @ [UP] @ lit ''2.0%'' @ [LF, LF]
             @ lit ''Headline: T'' @ [LF]
             @ lit ''Brief: We at IM'' @ [LF]
             @ lit ''Link: U'' @ [LF] @ [LF])"
proof -
  let ?e = "ex_env (ex_prices 100 98) []"
  let ?hs = "[ex_article (lit ''T'') (lit ''We <b>at</b> IM'') (lit ''U'')]"
  have wf: "list_all has_fields ?hs"
    by (simp add: ex_has_fields)
  have "create_sms ?e 2 ?hs (lit ''Tesla Inc'')
        = Inr (lit ''Tesla Inc'' @ lit '': '' @ [if (0 :: rat) < 2 then UP else DOWN]
               @ float_str ?e 2 @ lit ''%'' @ [LF, LF] @ concat (map article_block ?hs))"
    using wf create_sms_brief [of ?hs ?e 2 "lit ''Tesla Inc''"] by blast
  then have "create_sms ?e 2 ?hs (lit ''Tesla Inc'')
      = Inr (lit ''Tesla Inc: '' @ [UP] @ lit ''2.0%'' @ [LF, LF]
             @ lit ''Headline: T'' @ [LF]
             @ lit ''Brief: We at IM'' @ [LF]
             @ lit ''Link: U'' @ [LF] @ [LF])"
    by (simp add: ex_float_str ex_repr_2 ex_article_block lit_def LF_def LT_def GT_def)
  with wf show ?thesis
    by blast
qed

text \<open>
  Claim C6. For every article whose description contains markup of the form \<open><...>\<close>,
  the \<open>Brief:\<close> line is to hold the description with all such markup removed, so that no
  \<open><...>\<close> tag of a description appears in the message. The code compiles the pattern
  \<open><.*?>\<close> without the flag that lets the dot match a line feed, so it misses a tag that
  is broken over two lines: for the description \<open><a\<close>, line feed, \<open>b>x\<close> the composed
  message still holds the tag \<open><a\<close>, line feed, \<open>b>\<close> on its \<open>Brief:\<close> line, where the
  claim has \<open>Brief: x\<close>.
\<close>

theorem create_sms_keeps_split_tag:
  "create_sms (ex_env (ex_prices 100 98) []) 2
     [ex_article (lit ''T'') (lit ''<a'' @ [LF] @ lit ''b>x'') (lit ''U'')] (lit ''Tesla Inc'')
   = Inr (lit ''Tesla Inc: '' @ [UP] @ lit ''2.0%'' @ [LF, LF]
          @ lit ''Headline: T'' @ [LF]
          @ lit ''Brief: <a'' @ [LF] @ lit ''b>x'' @ [LF]
          @ lit ''Link: U'' @ [LF] @ [LF])"
proof -
  let ?e = "ex_env (ex_prices 100 98) []"
  let ?hs = "[ex_article (lit ''T'') (lit ''<a'' @ [LF] @ lit ''b>x'') (lit ''U'')]"
  have wf: "list_all has_fields ?hs"
    by (simp add: ex_has_fields)
  have "create_sms ?e 2 ?hs (lit ''Tesla Inc'')
        = Inr (lit ''Tesla Inc'' @ lit '': '' @ [if (0 :: rat) < 2 then UP else DOWN]
               @ float_str ?e 2 @ lit ''%'' @ [LF, LF] @ concat (map article_block ?hs))"
    using wf by (rule create_sms_blocks)
  then show ?thesis
    by (simp add: ex_float_str ex_repr_2 ex_article_block lit_def LF_def LT_def GT_def)
qed

subsection \<open>The news fetcher\<close>

lemma take_three: "3 \<le> length xs \<Longrightarrow> take 3 xs = [xs ! 0, xs ! 1, xs ! 2]"
proof -
  assume "3 \<le> length xs"
  then obtain a b c rest where "xs = a # b # c # rest"
    by (cases xs; cases "tl xs"; cases "tl (tl xs)") auto
  then show ?thesis
    by simp
qed

text \<open>
  Claim C8. For every provider response that is accepted and holds an ordered list of
  articles, the news fetcher returns the first three entries of that list in the
  provider's order: the whole list when it has fewer than three entries, its entries 0,
  1 and 2 otherwise.
\<close>

theorem get_news_first_three:
  assumes "newsapi e [(lit ''q'', company_name), (lit ''apiKey'', NEWS_API_KEY cfg)]
           = Inr response"
    and "raise_for_status response = Inr ()"
    and "json response = Some news_data"
    and "articles news_data = Some arts"
  shows "get_news cfg e company_name = Inr (take 3 arts)
         \<and> (length arts < 3 \<longrightarrow> get_news cfg e company_name = Inr arts)
         \<and> (3 \<le> length arts
            \<longrightarrow> get_news cfg e company_name = Inr [arts ! 0, arts ! 1, arts ! 2])"
proof -
  have r: "get_news cfg e company_name = Inr (take 3 arts)"
    using assms by (simp add: get_news_def)
  then show ?thesis
    by (auto simp: take_three)
qed

text \<open>Four articles from the provider: the first three come back, in order.\<close>

theorem get_news_first_three_of_four:
  "get_news ex_cfg
     (ex_env (ex_prices 100 98)
        [ex_article (lit ''A'') [] [], ex_article (lit ''B'') [] [],
         ex_article (lit ''C'') [] [], ex_article (lit ''D'') [] []])
     (lit ''Tesla Inc'')
   = Inr [ex_article (lit ''A'') [] [], ex_article (lit ''B'') [] [],
          ex_article (lit ''C'') [] []]"
proof -
  let ?news = "[ex_article (lit ''A'') [] [], ex_article (lit ''B'') [] [],
                ex_article (lit ''C'') [] [], ex_article (lit ''D'') [] []]"
  let ?e = "ex_env (ex_prices 100 98) ?news"
  let ?response = "\<lparr>status_code = 200, json = Some \<lparr>articles = Some ?news\<rparr>\<rparr>"
  have 1: "newsapi ?e [(lit ''q'', lit ''Tesla Inc''), (lit ''apiKey'', NEWS_API_KEY ex_cfg)]
           = Inr ?response"
    by (simp add: ex_env_def)
  have 2: "raise_for_status ?response = Inr ()"
    by (rule ex_status)
  have 3: "json ?response = Some \<lparr>articles = Some ?news\<rparr>"
    by simp
  have 4: "articles \<lparr>articles = Some ?news\<rparr> = Some ?news"
    by simp
  have "get_news ex_cfg ?e (lit ''Tesla Inc'') = Inr (take 3 ?news)"
    using get_news_first_three [OF 1 2 3 4] by blast
  then show ?thesis
    by simp
qed

subsection \<open>The notifier\<close>

lemma send_message_empty: "send_message cfg e [] w = (Inr (), w)"
  by (simp add: send_message_def)

lemma send_message_outbox:
  "message \<noteq> []
   \<Longrightarrow> outbox (snd (send_message cfg e message w))
       = outbox w @ [\<lparr>from_number = TWILIO_SENDER_NUMBER cfg,
                       to_number = TWILIO_RECEIVER_NUMBER cfg,
                       body = message\<rparr>]"
  by (simp add: send_message_def Let_def split: sum.split)

text \<open>
  Claim C7. Given the empty string, the notifier returns with the world as it was: no
  request is submitted and nothing is printed. Given a non-empty message it submits
  exactly one request, whose sender and receiver are the configured numbers and whose
  body is the message.
\<close>

theorem send_message_effect:
  "send_message cfg e [] w = (Inr (), w)
   \<and> (message \<noteq> []
      \<longrightarrow> outbox (snd (send_message cfg e message w))
          = outbox w @ [\<lparr>from_number = TWILIO_SENDER_NUMBER cfg,
                          to_number = TWILIO_RECEIVER_NUMBER cfg,
                          body = message\<rparr>])"
  by (simp add: send_message_empty send_message_outbox)

theorem send_message_effect_hello:
  "lit ''hello'' \<noteq> []
   \<and> outbox (snd (send_message ex_cfg (ex_env (ex_prices 100 98) []) (lit ''hello'') ex_world))
     = [\<lparr>from_number = lit ''+15550100'', to_number = lit ''+15550199'',
         body = lit ''hello''\<rparr>]"
proof -
  have ne: "lit ''hello'' \<noteq> []"
    by (simp add: lit_def)
  then have "outbox (snd (send_message ex_cfg (ex_env (ex_prices 100 98) []) (lit ''hello'')
                 ex_world))
             = outbox ex_world @ [\<lparr>from_number = TWILIO_SENDER_NUMBER ex_cfg,
                                    to_number = TWILIO_RECEIVER_NUMBER ex_cfg,
                                    body = lit ''hello''\<rparr>]"
    using send_message_effect [of ex_cfg "ex_env (ex_prices 100 98) []" ex_world "lit ''hello''"]
    by blast
  with ne show ?thesis
    by (simp add: ex_cfg_def ex_world_def)
qed

subsection \<open>The main loop\<close>

lemma get_stock_difference_outbox:
  "outbox (snd (get_stock_difference cfg e stock_symbol w)) = outbox w"
  by (simp add: get_stock_difference_def Let_def split: sum.split option.split)

lemma create_sms_not_empty: "create_sms e d hs c \<noteq> Inr []"
proof
  assume "create_sms e d hs c = Inr []"
  then have "prefix (c @ lit '': '' @ [if 0 < d then UP else DOWN] @ float_str e d
                     @ lit ''%'' @ [LF, LF]) []"
    by (rule create_sms_prefix)
  then show False
    by simp
qed

lemma main_loop_outbox:
  "main_loop cfg e pairs w = (Inr (), w')
   \<Longrightarrow> length (outbox w') = length (outbox w) + length pairs"
proof (induction pairs arbitrary: w)
  case Nil
  then show ?case by simp
next
  case (Cons p pairs)
  obtain stock_symbol company_name where p: "p = (stock_symbol, company_name)"
    by (cases p)
  from Cons.prems obtain d w1 hs sms w2
    where g: "get_stock_difference cfg e stock_symbol w = (Inr d, w1)"
      and c: "create_sms e d hs company_name = Inr sms"
      and s: "send_message cfg e sms w1 = (Inr (), w2)"
      and r: "main_loop cfg e pairs w2 = (Inr (), w')"
    unfolding p by (auto split: prod.splits sum.splits)
  from g have "outbox w1 = outbox w"
    using get_stock_difference_outbox [of cfg e stock_symbol w] by simp
  moreover from c have "sms \<noteq> []"
    using create_sms_not_empty [of e d hs company_name] by auto
  then have "length (outbox w2) = length (outbox w1) + 1"
    using send_message_outbox [of sms cfg e w1] s by simp
  moreover have "length (outbox w') = length (outbox w2) + length pairs"
    using r by (rule Cons.IH)
  ultimately show ?case
    by simp
qed

text \<open>
  Claim C9. For every percentage change, company name and article list the composer
  never returns the empty string: with no articles the message is the header line and a
  blank line, and every message returned begins with them (one is returned whenever the
  articles have their three fields). So the message the main loop hands to the notifier
  is never empty: the notifier does not take its early return there but submits the
  message, and a run of the main loop that completes has submitted one request for
  each of the five stocks.
\<close>

theorem create_sms_never_empty:
  "create_sms e d hs c \<noteq> Inr []
   \<and> create_sms e d [] c
       = Inr (c @ lit '': '' @ [if 0 < d then UP else DOWN] @ float_str e d @ lit ''%''
              @ [LF, LF])
   \<and> (list_all has_fields hs \<longrightarrow> (\<exists>m. create_sms e d hs c = Inr m))
   \<and> (create_sms e d hs c = Inr sms
      \<longrightarrow> prefix (c @ lit '': '' @ [if 0 < d then UP else DOWN] @ float_str e d @ lit ''%''
                  @ [LF, LF]) sms
          \<and> send_message cfg e sms w \<noteq> (Inr (), w)
          \<and> outbox (snd (send_message cfg e sms w))
              = outbox w @ [\<lparr>from_number = TWILIO_SENDER_NUMBER cfg,
                              to_number = TWILIO_RECEIVER_NUMBER cfg,
                              body = sms\<rparr>])
   \<and> (main cfg e w = (Inr (), w') \<longrightarrow> length (outbox w') = length (outbox w) + 5)"
proof (intro conjI impI)
  show "create_sms e d hs c \<noteq> Inr []"
    by (rule create_sms_not_empty)
next
  show "create_sms e d [] c
       = Inr (c @ lit '': '' @ [if 0 < d then UP else DOWN] @ float_str e d @ lit ''%''
              @ [LF, LF])"
    by (simp add: create_sms_def)
next
  assume "list_all has_fields hs"
  then show "\<exists>m. create_sms e d hs c = Inr m"
    by (simp add: create_sms_blocks)
next
  assume r: "create_sms e d hs c = Inr sms"
  then show "prefix (c @ lit '': '' @ [if 0 < d then UP else DOWN] @ float_str e d @ lit ''%''
                  @ [LF, LF]) sms"
    by (rule create_sms_prefix)
  from r have ne: "sms \<noteq> []"
    using create_sms_not_empty [of e d hs c] by auto
  then show sent: "outbox (snd (send_message cfg e sms w))
              = outbox w @ [\<lparr>from_number = TWILIO_SENDER_NUMBER cfg,
                              to_number = TWILIO_RECEIVER_NUMBER cfg,
                              body = sms\<rparr>]"
    by (rule send_message_outbox)
  show "send_message cfg e sms w \<noteq> (Inr (), w)"
  proof
    assume "send_message cfg e sms w = (Inr (), w)"
    with sent show False by simp
  qed
next
  assume "main cfg e w = (Inr (), w')"
  then have "length (outbox w') = length (outbox w) + length (zip STOCKS COMPANIES)"
    unfolding main_def by (rule main_loop_outbox)
  then show "length (outbox w') = length (outbox w) + 5"
    by (simp add: STOCKS_def COMPANIES_def)
qed

text \<open>
  A complete run: every provider answers, no articles are found, and the five messages
  are the five headers. Each of them is submitted.
\<close>

lemma ex_difference:
  "fst (get_stock_difference ex_cfg (ex_env (ex_prices 100 98) []) symbol w) = Inr 2"
proof -
  have q: "py_div (py_mul (py_round (py_sub (py_float 100) (py_float 98)) 2) 100)
             (py_float 100) = Inr 2"
    by code_simp
  have r: "py_round 2 2 = 2"
    by code_simp
  have "fst (get_stock_difference ex_cfg (ex_env (ex_prices 100 98) []) symbol w)
        = (case py_div (py_mul (py_round (py_sub (py_float 100) (py_float 98)) 2) 100)
                  (py_float 100) of
             Inl err \<Rightarrow> Inl err
           | Inr q \<Rightarrow> Inr (py_round q 2))"
    by (rule get_stock_difference_found [OF ex_get ex_status ex_json ex_meta ex_zone
          ex_timezone ex_yesterday ex_two_days_ago ex_close_friday ex_close_thursday])
  then show ?thesis
    unfolding q by (simp only: sum.case r)
qed

lemma ex_get_news: "get_news ex_cfg (ex_env prices []) company = Inr []"
  by (simp add: get_news_def ex_env_def raise_for_status_def)

lemma ex_send:
  "message \<noteq> [] \<Longrightarrow> fst (send_message ex_cfg (ex_env prices news) message w) = Inr ()"
  by (simp add: send_message_def ex_env_def Let_def)

lemma ex_main_loop:
  "fst (main_loop ex_cfg (ex_env (ex_prices 100 98) []) pairs w) = Inr ()"
proof (induction pairs arbitrary: w)
  case Nil
  show ?case by simp
next
  case (Cons p pairs)
  let ?e = "ex_env (ex_prices 100 98) []"
  obtain stock_symbol company_name where p: "p = (stock_symbol, company_name)"
    by (cases p)
  obtain w1 where g: "get_stock_difference ex_cfg ?e stock_symbol w = (Inr 2, w1)"
    using ex_difference [of stock_symbol w]
    by (cases "get_stock_difference ex_cfg ?e stock_symbol w") auto
  obtain sms where c: "create_sms ?e 2 [] company_name = Inr sms"
    by (simp add: create_sms_def)
  then have "sms \<noteq> []"
    using create_sms_not_empty [of ?e 2 "[]" company_name] by auto
  then obtain w2 where s: "send_message ex_cfg ?e sms w1 = (Inr (), w2)"
    using ex_send [of sms "ex_prices 100 98" "[]" w1]
    by (cases "send_message ex_cfg ?e sms w1") auto
  show ?case
    unfolding p by (simp add: g ex_get_news c s Cons.IH)
qed

theorem create_sms_never_empty_run:
  "fst (main ex_cfg (ex_env (ex_prices 100 98) []) ex_world) = Inr ()
   \<and> length (outbox (snd (main ex_cfg (ex_env (ex_prices 100 98) []) ex_world))) = 5"
proof -
  let ?e = "ex_env (ex_prices 100 98) []"
  have ok: "fst (main ex_cfg ?e ex_world) = Inr ()"
    unfolding main_def by (rule ex_main_loop)
  then have run: "main ex_cfg ?e ex_world = (Inr (), snd (main ex_cfg ?e ex_world))"
    by (simp add: prod_eq_iff)
  have "length (outbox (snd (main ex_cfg ?e ex_world))) = length (outbox ex_world) + 5"
    using run create_sms_never_empty [where cfg = ex_cfg and e = ?e and w = ex_world
        and w' = "snd (main ex_cfg ?e ex_world)"]
    by blast
  with ok show ?thesis
    by (simp add: ex_world_def)
qed

end
